theory Spec2Isabelle
  imports Main "HOL-Library.Word" "HOL-Library.Multiset"
begin

unbundle bit_operations_syntax

section \<open>JavaScript strings\<close>

text \<open>
  A JavaScript string is a sequence of UTF-16 code units, each a number below 65536. The
  code does no arithmetic on code units apart from the hash of \<open>generateItemId\<close>,
  which reduces them to 32 bits, so a code unit is a natural number here. String
  literals of the source are ASCII and are written with \<open>str\<close>.
\<close>

type_synonym cu = nat
type_synonym jsstring = "cu list"

definition str :: "string \<Rightarrow> jsstring" where
  "str s = map of_char s"

text \<open>
  The regular expressions of the source carry the \<open>i\<close> flag and consist of ASCII
  characters only. Canonicalisation (without the \<open>u\<close> flag) never maps a code unit
  of 128 or more to an ASCII one, so a pattern character matches exactly its two ASCII
  cases.
\<close>

definition canon :: "cu \<Rightarrow> cu" where
  "canon c = (if 0x61 \<le> c \<and> c \<le> 0x7A then c - 0x20 else c)"

definition same_cu :: "bool \<Rightarrow> cu \<Rightarrow> cu \<Rightarrow> bool" where
  "same_cu ci p c = (if ci then canon p = canon c else p = c)"

fun lit_prefix :: "bool \<Rightarrow> jsstring \<Rightarrow> jsstring \<Rightarrow> bool" where
  "lit_prefix ci [] s = True"
| "lit_prefix ci (p # ps) [] = False"
| "lit_prefix ci (p # ps) (c # cs) = (same_cu ci p c \<and> lit_prefix ci ps cs)"

text \<open>\<open>String.prototype.trim\<close>: white space and line terminators of ECMAScript.\<close>

definition is_space :: "cu \<Rightarrow> bool" where
  "is_space c \<longleftrightarrow>
     (0x09 \<le> c \<and> c \<le> 0x0D) \<or> c = 0x20 \<or> c = 0xA0 \<or> c = 0x1680 \<or>
     (0x2000 \<le> c \<and> c \<le> 0x200A) \<or> c = 0x2028 \<or> c = 0x2029 \<or> c = 0x202F \<or>
     c = 0x205F \<or> c = 0x3000 \<or> c = 0xFEFF"

definition trim :: "jsstring \<Rightarrow> jsstring" where
  "trim s = rev (dropWhile is_space (rev (dropWhile is_space s)))"

text \<open>\<open>a || b\<close> on strings: the empty string is the only falsy one.\<close>

definition js_or :: "jsstring \<Rightarrow> jsstring \<Rightarrow> jsstring" where
  "js_or a b = (if a \<noteq> [] then a else b)"

section \<open>The regular expressions of the source\<close>

text \<open>
  Every pattern of the source is a sequence of literals, single character classes and
  repeated character classes, with at most one capture group, which encloses one
  repetition. \<open>rx_at\<close> is the backtracking matcher at one start position: a greedy
  repetition tries the longest run first, a lazy one the shortest; the result is the
  text of group 1 and the input left after the match.
\<close>

datatype cls = AnyChar | NoneOf jsstring | OneOf jsstring | Digit

fun cls_mem :: "cls \<Rightarrow> cu \<Rightarrow> bool" where
  "cls_mem AnyChar c = True"
| "cls_mem (NoneOf xs) c = (c \<notin> set xs)"
| "cls_mem (OneOf xs) c = (c \<in> set xs)"
| "cls_mem Digit c = (0x30 \<le> c \<and> c \<le> 0x39)"

datatype quant = Greedy | Lazy

datatype atom =
    Lit jsstring
  | Chr cls
  | Rep cls nat quant
  | Cap cls nat quant

fun first_some :: "(nat \<Rightarrow> 'a option) \<Rightarrow> nat list \<Rightarrow> 'a option" where
  "first_some f [] = None"
| "first_some f (k # ks) = (case f k of Some r \<Rightarrow> Some r | None \<Rightarrow> first_some f ks)"

definition counts :: "quant \<Rightarrow> nat \<Rightarrow> nat \<Rightarrow> nat list" where
  "counts q lo hi = (case q of Lazy \<Rightarrow> [lo..<Suc hi] | Greedy \<Rightarrow> rev [lo..<Suc hi])"

definition run :: "cls \<Rightarrow> jsstring \<Rightarrow> nat" where
  "run c s = length (takeWhile (cls_mem c) s)"

fun rx_at :: "bool \<Rightarrow> atom list \<Rightarrow> jsstring \<Rightarrow> (jsstring \<times> jsstring) option" where
  "rx_at ci [] s = Some ([], s)"
| "rx_at ci (Lit l # as) s =
     (if lit_prefix ci l s then rx_at ci as (drop (length l) s) else None)"
| "rx_at ci (Chr c # as) s =
     (case s of [] \<Rightarrow> None
      | x # xs \<Rightarrow> if cls_mem c x then rx_at ci as xs else None)"
| "rx_at ci (Rep c lo q # as) s =
     first_some (\<lambda>k. rx_at ci as (drop k s)) (counts q lo (run c s))"
| "rx_at ci (Cap c lo q # as) s =
     first_some (\<lambda>k. map_option (\<lambda>(g, rest). (take k s, rest)) (rx_at ci as (drop k s)))
       (counts q lo (run c s))"

text \<open>The leftmost match: \<open>String.prototype.match\<close> and \<open>RegExp.prototype.exec\<close>.\<close>

fun rx_search :: "bool \<Rightarrow> atom list \<Rightarrow> jsstring \<Rightarrow> (jsstring \<times> jsstring) option" where
  "rx_search ci r [] = rx_at ci r []"
| "rx_search ci r (c # cs) =
     (case rx_at ci r (c # cs) of Some m \<Rightarrow> Some m | None \<Rightarrow> rx_search ci r cs)"

text \<open>
  \<open>String.prototype.replace\<close> with a global pattern and a replacement computed from
  group 1: matches are replaced from left to right, and the scan advances by one
  code unit after an empty match.
\<close>

fun rx_replace :: "bool \<Rightarrow> atom list \<Rightarrow> (jsstring \<Rightarrow> jsstring) \<Rightarrow> jsstring \<Rightarrow> jsstring" where
  "rx_replace ci r f s =
     (case rx_at ci r s of
        None \<Rightarrow> (case s of [] \<Rightarrow> [] | c # cs \<Rightarrow> c # rx_replace ci r f cs)
      | Some (g, rest) \<Rightarrow>
          if length rest < length s then f g @ rx_replace ci r f rest
          else (case s of [] \<Rightarrow> f g | c # cs \<Rightarrow> f g @ c # rx_replace ci r f cs))"

declare rx_replace.simps [simp del]

section \<open>The parts of the JavaScript runtime the code calls\<close>

text \<open>
  The built-ins whose results the language leaves to the engine or to the outside world
  are parameters of the model:
  \<^item> \<open>Date_parse s\<close> is the time value of \<open>new Date(s)\<close> in milliseconds, \<open>None\<close> for
    an invalid date (time value NaN);
  \<^item> \<open>Date_now k\<close> is the clock reading of the \<open>k\<close>-th call of \<open>new Date()\<close>;
  \<^item> \<open>toISOString t\<close> renders a valid time value (on an invalid date the method
    throws a RangeError, which is written out where it is called);
  \<^item> \<open>fromCharCode ds\<close> is \<open>String.fromCharCode(ds)\<close> for a string of decimal digits;
  \<^item> \<open>URL_hostname u\<close> is \<open>new URL(u).hostname\<close>, \<open>None\<close> when the constructor throws;
  \<^item> \<open>parseInt10 s\<close> is \<open>parseInt(s, 10)\<close>, \<open>None\<close> for NaN.
\<close>

record js_runtime =
  Date_parse :: "jsstring \<Rightarrow> int option"
  Date_now :: "nat \<Rightarrow> int"
  toISOString :: "int \<Rightarrow> jsstring"
  fromCharCode :: "jsstring \<Rightarrow> cu"
  URL_hostname :: "jsstring \<Rightarrow> jsstring option"
  parseInt10 :: "jsstring \<Rightarrow> int option"

datatype js_error = RangeError | TypeError | NetworkError | SyntaxError

section \<open>rss-feed.js: the feed parser\<close>

text \<open>
  \<open>extractTag\<close> builds its two patterns from the tag name; every call of the source
  passes a name without pattern metacharacters, so the name is a literal of the pattern.
\<close>

definition cdataRegex :: "string \<Rightarrow> atom list" where
  "cdataRegex tagName =
     [Lit (str (''<'' @ tagName)), Rep (NoneOf (str ''>'')) 0 Greedy,
      Lit (str ''><![CDATA[''), Cap AnyChar 0 Lazy,
      Lit (str ('']]></'' @ tagName @ ''>''))]"

definition tagRegex :: "string \<Rightarrow> atom list" where
  "tagRegex tagName =
     [Lit (str (''<'' @ tagName)), Rep (NoneOf (str ''>'')) 0 Greedy, Lit (str ''>''),
      Cap AnyChar 0 Lazy, Lit (str (''</'' @ tagName @ ''>''))]"

definition extractTag :: "jsstring \<Rightarrow> string \<Rightarrow> jsstring" where
  "extractTag xml tagName =
     (case rx_search True (cdataRegex tagName) xml of
        Some (g, rest) \<Rightarrow> trim g
      | None \<Rightarrow>
          (case rx_search True (tagRegex tagName) xml of
             Some (g, rest) \<Rightarrow> trim g
           | None \<Rightarrow> []))"

definition quote :: cls where
  "quote = OneOf (str [CHR 0x22, CHR 0x27])"

definition altLinkRegex :: "atom list" where
  "altLinkRegex =
     [Lit (str ''<link''), Rep (NoneOf (str ''>'')) 0 Greedy, Lit (str ''rel=''), Chr quote,
      Lit (str ''alternate''), Chr quote, Rep (NoneOf (str ''>'')) 0 Greedy,
      Lit (str ''href=''), Chr quote, Cap (NoneOf (str [CHR 0x22, CHR 0x27])) 1 Greedy,
      Chr quote]"

definition hrefRegex :: "atom list" where
  "hrefRegex =
     [Lit (str ''<link''), Rep (NoneOf (str ''>'')) 0 Greedy, Lit (str ''href=''), Chr quote,
      Cap (NoneOf (str [CHR 0x22, CHR 0x27])) 1 Greedy, Chr quote]"

definition extractAtomLink :: "jsstring \<Rightarrow> jsstring" where
  "extractAtomLink xml =
     (case rx_search True altLinkRegex xml of
        Some (g, rest) \<Rightarrow> g
      | None \<Rightarrow>
          (case rx_search True hrefRegex xml of
             Some (g, rest) \<Rightarrow> g
           | None \<Rightarrow> []))"

definition decodeHTMLEntities :: "js_runtime \<Rightarrow> jsstring \<Rightarrow> jsstring" where
  "decodeHTMLEntities rt text =
     (if text = [] then []
      else
        let t1 = rx_replace False [Lit (str ''&amp;'')] (\<lambda>g. str ''&'') text;
            t2 = rx_replace False [Lit (str ''&lt;'')] (\<lambda>g. str ''<'') t1;
            t3 = rx_replace False [Lit (str ''&gt;'')] (\<lambda>g. str ''>'') t2;
            t4 = rx_replace False [Lit (str ''&quot;'')] (\<lambda>g. str [CHR 0x22]) t3;
            t5 = rx_replace False [Lit (str ''&#39;'')] (\<lambda>g. str [CHR 0x27]) t4;
            t6 = rx_replace False [Lit (str ''&nbsp;'')] (\<lambda>g. str '' '') t5
        in rx_replace False [Lit (str ''&#''), Cap Digit 1 Greedy, Lit (str '';'')]
             (\<lambda>num. [fromCharCode rt num]) t6)"

text \<open>
  The loops \<open>while ((match = regex.exec(xmlText)) !== null)\<close>: the pattern is created
  by the call, so the scan starts at index 0, and every match resumes where the last
  one ended. The loop body reads \<open>match[1]\<close> only, so the loop visits the blocks
  \<open>exec_blocks\<close> lists, in this order. A match holds the opening tag at least, which
  is what makes the loop end.
\<close>

definition blockRegex :: "string \<Rightarrow> atom list" where
  "blockRegex tag =
     [Lit (str (''<'' @ tag @ ''>'')), Cap AnyChar 0 Lazy, Lit (str (''</'' @ tag @ ''>''))]"

fun minlen :: "atom list \<Rightarrow> nat" where
  "minlen [] = 0"
| "minlen (Lit l # as) = length l + minlen as"
| "minlen (Chr c # as) = 1 + minlen as"
| "minlen (Rep c lo q # as) = lo + minlen as"
| "minlen (Cap c lo q # as) = lo + minlen as"

lemma first_some_SomeD:
  "first_some f ks = Some r \<Longrightarrow> \<exists>k \<in> set ks. f k = Some r"
  by (induction ks) (auto split: option.splits)

lemma lit_prefix_length: "lit_prefix ci l s \<Longrightarrow> length l \<le> length s"
  by (induction ci l s rule: lit_prefix.induct) auto

lemma counts_bounds: "k \<in> set (counts q lo hi) \<Longrightarrow> lo \<le> k \<and> k \<le> hi"
  by (cases q) (auto simp: counts_def)

lemma run_le_length: "run c s \<le> length s"
  by (simp add: run_def length_takeWhile_le)

lemma rx_at_length:
  "rx_at ci r s = Some (g, rest) \<Longrightarrow> length rest + minlen r \<le> length s"
proof (induction ci r s arbitrary: g rest rule: rx_at.induct)
  case (1 ci s)
  then show ?case by simp
next
  case (2 ci l as s)
  then have p: "lit_prefix ci l s" and m: "rx_at ci as (drop (length l) s) = Some (g, rest)"
    by (auto split: if_splits)
  from "2.IH" [OF p m] lit_prefix_length [OF p] show ?case by simp
next
  case (3 ci c as s)
  then show ?case by (fastforce split: list.splits if_splits)
next
  case (4 ci c lo q as s)
  from "4.prems" obtain k where k: "k \<in> set (counts q lo (run c s))"
    and m: "rx_at ci as (drop k s) = Some (g, rest)"
    by (auto dest: first_some_SomeD)
  from counts_bounds [OF k] run_le_length [of c s] "4.IH" [OF m] show ?case by simp arith
next
  case (5 ci c lo q as s)
  from "5.prems" obtain k g' where k: "k \<in> set (counts q lo (run c s))"
    and m: "rx_at ci as (drop k s) = Some (g', rest)"
    by (auto dest!: first_some_SomeD)
  from counts_bounds [OF k] run_le_length [of c s] "5.IH" [OF m] show ?case by simp arith
qed

lemma rx_search_length:
  "rx_search ci r s = Some (g, rest) \<Longrightarrow> length rest + minlen r \<le> length s"
proof (induction s)
  case Nil
  then show ?case using rx_at_length [of ci r "[]" g rest] by simp
next
  case (Cons c cs)
  show ?case
  proof (cases "rx_at ci r (c # cs)")
    case None
    with Cons show ?thesis by simp
  next
    case (Some m)
    with Cons.prems rx_at_length [of ci r "c # cs" g rest] show ?thesis by simp
  qed
qed

function exec_blocks :: "string \<Rightarrow> jsstring \<Rightarrow> jsstring list" where
  "exec_blocks tag s =
     (case rx_search True (blockRegex tag) s of
        None \<Rightarrow> []
      | Some (g, rest) \<Rightarrow> g # exec_blocks tag rest)"
  by pat_completeness auto
termination
proof (relation "measure (\<lambda>(tag, s). length s)")
  show "wf (measure (\<lambda>(tag, s). length s))" by simp
next
  fix tag s x g rest
  assume "rx_search True (blockRegex tag) s = Some x" and "(g, rest) = x"
  then have "length rest + minlen (blockRegex tag) \<le> length s"
    using rx_search_length [of True "blockRegex tag" s g rest] by simp
  then show "((tag, rest), (tag, s)) \<in> measure (\<lambda>(tag, s). length s)"
    by (simp add: blockRegex_def str_def)
qed

declare exec_blocks.simps [simp del]

record feed_item =
  title :: jsstring
  link :: jsstring
  description :: jsstring
  pubDate :: jsstring
  author :: jsstring

text \<open>
  \<open>d ? new Date(d).toISOString() : new Date().toISOString()\<close>, with the number \<open>k\<close>
  of clock readings made so far, which every result carries on. \<open>toISOString\<close> throws
  a RangeError on an invalid date.
\<close>

definition isoDate :: "js_runtime \<Rightarrow> nat \<Rightarrow> jsstring \<Rightarrow> (js_error + jsstring) \<times> nat" where
  "isoDate rt k d =
     (if d \<noteq> [] then
        (case Date_parse rt d of
           None \<Rightarrow> (Inl RangeError, k)
         | Some t \<Rightarrow> (Inr (toISOString rt t), k))
      else (Inr (toISOString rt (Date_now rt k)), Suc k))"

text \<open>The field extraction at the head of each loop body.\<close>

definition rssFields :: "jsstring \<Rightarrow> feed_item" where
  "rssFields itemXml =
     \<lparr>title = extractTag itemXml ''title'',
      link = js_or (extractTag itemXml ''link'') (extractTag itemXml ''guid''),
      description =
        js_or (js_or (extractTag itemXml ''description'') (extractTag itemXml ''content:encoded'')) [],
      pubDate = js_or (extractTag itemXml ''pubDate'') (extractTag itemXml ''dc:date''),
      author = js_or (js_or (extractTag itemXml ''author'') (extractTag itemXml ''dc:creator'')) []\<rparr>"

definition atomFields :: "jsstring \<Rightarrow> feed_item" where
  "atomFields entryXml =
     \<lparr>title = extractTag entryXml ''title'',
      link = extractAtomLink entryXml,
      description =
        js_or (js_or (extractTag entryXml ''summary'') (extractTag entryXml ''content'')) [],
      pubDate = js_or (extractTag entryXml ''published'') (extractTag entryXml ''updated''),
      author = extractTag entryXml ''name''\<rparr>"

text \<open>
  The rest of the body, the same in both loops: \<open>if (title && link) items.push({...})\<close>.
  An exception leaves the loop and the function, and the items pushed so far are lost.
\<close>

definition hasTitleAndLink :: "feed_item \<Rightarrow> bool" where
  "hasTitleAndLink f \<longleftrightarrow> title f \<noteq> [] \<and> link f \<noteq> []"

fun pushItems ::
  "js_runtime \<Rightarrow> feed_item list \<Rightarrow> feed_item list \<Rightarrow> nat \<Rightarrow> (js_error + feed_item list) \<times> nat"
where
  "pushItems rt [] items k = (Inr items, k)"
| "pushItems rt (f # fs) items k =
     (if hasTitleAndLink f then
        (case isoDate rt k (pubDate f) of
           (Inl e, k') \<Rightarrow> (Inl e, k')
         | (Inr d, k') \<Rightarrow>
             pushItems rt fs
               (items @ [\<lparr>title = decodeHTMLEntities rt (title f), link = link f,
                          description = description f, pubDate = d,
                          author = decodeHTMLEntities rt (js_or (author f) [])\<rparr>]) k')
      else pushItems rt fs items k)"

definition parseRSSFeed ::
  "js_runtime \<Rightarrow> nat \<Rightarrow> jsstring \<Rightarrow> (js_error + feed_item list) \<times> nat" where
  "parseRSSFeed rt k xmlText =
     (case pushItems rt (map rssFields (exec_blocks ''item'' xmlText)) [] k of
        (Inl e, k') \<Rightarrow> (Inl e, k')
      | (Inr items, k') \<Rightarrow>
          if length items = 0 then
            pushItems rt (map atomFields (exec_blocks ''entry'' xmlText)) items k'
          else (Inr items, k'))"

section \<open>The world outside: environment, helpers, network, console\<close>

text \<open>
  \<open>env\<close> maps the name of a configuration key to its string value, \<open>None\<close> when
  the key is unset.
\<close>

type_synonym env = "string \<Rightarrow> jsstring option"

definition env_or :: "env \<Rightarrow> string \<Rightarrow> jsstring \<Rightarrow> jsstring" where
  "env_or e key dflt = (case e key of None \<Rightarrow> dflt | Some v \<Rightarrow> js_or v dflt)"

text \<open>
  \<open>helpers.js\<close> is not among the sources. Its two functions that decide which items
  an adapter returns are parameters: the recency test, applied to a date field (\<open>None\<close>
  when the field is undefined) and to the parsed number of days (\<open>None\<close> for NaN), and the
  tag stripper. \<open>sleep\<close> and \<open>getRandomUserAgent\<close> change delays and request headers
  only and are left out.
\<close>

record helpers =
  isDateWithinLastDays :: "jsstring option \<Rightarrow> int option \<Rightarrow> bool"
  stripHtml :: "jsstring \<Rightarrow> jsstring"

text \<open>
  What a \<open>fetch\<close> can come to: the promise rejects; the response is not \<open>ok\<close>, with
  its status and status text; or it is \<open>ok\<close>, and reading the body gives a value or
  fails (\<open>None\<close>).
\<close>

datatype 'b http = Rejected | NotOk nat jsstring | Ok "'b option"

record api_entries =
  e_id :: "jsstring option"
  e_url :: "jsstring option"
  e_title :: "jsstring option"
  e_content :: "jsstring option"
  e_publishedAt :: "jsstring option"
  e_author :: "jsstring option"

record api_feeds =
  f_title :: "jsstring option"
  f_url :: "jsstring option"

record api_entry =
  entries :: "api_entries option"
  feeds :: "api_feeds option"

record api_body =
  listId :: jsstring
  publishedAfter :: "jsstring option"

datatype request = Get jsstring | Post "jsstring option" api_body

text \<open>
  The network answers a request given the number of requests issued before it. The body
  of an API response is the array \<open>data.data\<close>, \<open>None\<close> when \<open>data\<close> or \<open>data.data\<close>
  is missing or falsy.
\<close>

record network =
  http_get :: "nat \<Rightarrow> jsstring \<Rightarrow> jsstring http"
  http_post :: "nat \<Rightarrow> jsstring option \<Rightarrow> api_body \<Rightarrow> api_entry list option http"

datatype level = Log | Warn | Error

text \<open>
  The state the functions thread through: the number of clock readings, the requests
  issued, and the console output (level and first argument of each call).
\<close>

record world =
  clock :: nat
  requests :: "request list"
  console :: "(level \<times> jsstring) list"

definition say :: "level \<Rightarrow> jsstring \<Rightarrow> world \<Rightarrow> world" where
  "say l msg w = w\<lparr>console := console w @ [(l, msg)]\<rparr>"

definition issue :: "request \<Rightarrow> world \<Rightarrow> world" where
  "issue r w = w\<lparr>requests := requests w @ [r]\<rparr>"

text \<open>\<open>Number.prototype.toString(radix)\<close> on a natural number.\<close>

definition digit :: "nat \<Rightarrow> cu" where
  "digit d = (if d < 10 then 0x30 + d else 0x61 + (d - 10))"

fun toStringRadix :: "nat \<Rightarrow> nat \<Rightarrow> jsstring" where
  "toStringRadix b n =
     (if n < b \<or> b < 2 then [digit n] else toStringRadix b (n div b) @ [digit (n mod b)])"

declare toStringRadix.simps [simp del]

text \<open>
  \<open>Array.prototype.sort\<close> with a comparator. A NaN result counts as 0. For a comparator
  that is a consistent ordering the language fixes the result, the stable sorted
  arrangement, which insertion from the right computes; the comparators of the source are
  consistent when every date is valid.
\<close>

fun js_insort :: "('a \<Rightarrow> 'a \<Rightarrow> int option) \<Rightarrow> 'a \<Rightarrow> 'a list \<Rightarrow> 'a list" where
  "js_insort cmp x [] = [x]"
| "js_insort cmp x (y # ys) =
     (if (case cmp x y of None \<Rightarrow> True | Some v \<Rightarrow> v \<le> 0) then x # y # ys
      else y # js_insort cmp x ys)"

definition js_sort :: "('a \<Rightarrow> 'a \<Rightarrow> int option) \<Rightarrow> 'a list \<Rightarrow> 'a list" where
  "js_sort cmp xs = foldr (js_insort cmp) xs []"

text \<open>\<open>new Date(b) - new Date(a)\<close> on two date fields: NaN when either date is invalid.\<close>

definition timeOf :: "js_runtime \<Rightarrow> jsstring option \<Rightarrow> int option" where
  "timeOf rt d = (case d of None \<Rightarrow> None | Some s \<Rightarrow> Date_parse rt s)"

definition newerFirst :: "js_runtime \<Rightarrow> jsstring option \<Rightarrow> jsstring option \<Rightarrow> int option" where
  "newerFirst rt a b =
     (case (timeOf rt b, timeOf rt a) of
        (Some tb, Some ta) \<Rightarrow> Some (tb - ta)
      | _ \<Rightarrow> None)"


section \<open>rss-feed.js: the RSS adapter\<close>

fun hashLoop :: "32 word \<Rightarrow> jsstring \<Rightarrow> 32 word" where
  "hashLoop hash [] = hash"
| "hashLoop hash (c # cs) = hashLoop ((push_bit 5 hash - hash) + word_of_nat c) cs"

definition generateItemId :: "jsstring \<Rightarrow> jsstring" where
  "generateItemId url = toStringRadix 36 (nat \<bar>sint (hashLoop 0 url)\<bar>)"

record rss_item = feed_item +
  source :: jsstring
  item_id :: jsstring

record rss_payload =
  p_title :: "jsstring option"
  p_items :: "rss_item list option"

record rss_source =
  sourceType :: jsstring
  sourceName :: jsstring
  envKeyUrl :: string

text \<open>\<open>s.split(',')\<close>.\<close>

fun split_comma :: "jsstring \<Rightarrow> jsstring list" where
  "split_comma [] = [[]]"
| "split_comma (c # cs) =
     (if c = 0x2C then [] # split_comma cs
      else (case split_comma cs of p # ps \<Rightarrow> (c # p) # ps | [] \<Rightarrow> [[c]]))"

text \<open>
  The statements of the \<open>try\<close> block that follow \<open>await response.text()\<close>: the items
  one feed contributes and the feed title, or the exception the \<open>catch\<close> clause receives.
\<close>

definition feedItems ::
  "js_runtime \<Rightarrow> helpers \<Rightarrow> int option \<Rightarrow> jsstring \<Rightarrow> jsstring \<Rightarrow> nat \<Rightarrow>
     (js_error + rss_item list \<times> jsstring) \<times> nat" where
  "feedItems rt hp filterDays rssUrl xmlText k =
     (case parseRSSFeed rt k xmlText of
        (Inl e, k') \<Rightarrow> (Inl e, k')
      | (Inr items, k') \<Rightarrow>
          (case (if extractTag xmlText ''title'' \<noteq> [] then Some (extractTag xmlText ''title'')
                 else URL_hostname rt rssUrl) of
             None \<Rightarrow> (Inl TypeError, k')
           | Some feedTitle \<Rightarrow>
               (Inr (map (\<lambda>item. feed_item.extend item
                            \<lparr>source = decodeHTMLEntities rt feedTitle,
                             item_id = generateItemId (link item)\<rparr>)
                       (filter (\<lambda>item. isDateWithinLastDays hp (Some (pubDate item)) filterDays)
                          items),
                     feedTitle), k')))"

text \<open>
  One round of the loop \<open>for (const rssUrl of urlList)\<close>: the items it pushes on
  \<open>allItems\<close> (none when the round ends in \<open>continue\<close> or in the \<open>catch\<close> clause) and
  the world after it.
\<close>

definition fetchFeed ::
  "js_runtime \<Rightarrow> helpers \<Rightarrow> network \<Rightarrow> int option \<Rightarrow> jsstring \<Rightarrow> world \<Rightarrow> rss_item list \<times> world" where
  "fetchFeed rt hp net filterDays rssUrl w =
     (let w1 = say Log (str ''Fetching RSS: '' @ rssUrl) w;
          w2 = issue (Get rssUrl) w1;
          caught = say Error (str ''Error fetching RSS '' @ rssUrl @ str '':'')
      in case http_get net (length (requests w1)) rssUrl of
           Rejected \<Rightarrow> ([], caught w2)
         | NotOk status statusText \<Rightarrow>
             ([], say Error (str ''Failed to fetch RSS '' @ rssUrl @ str '': ''
                              @ toStringRadix 10 status) w2)
         | Ok None \<Rightarrow> ([], caught w2)
         | Ok (Some xmlText) \<Rightarrow>
             (case feedItems rt hp filterDays rssUrl xmlText (clock w2) of
                (Inl e, k') \<Rightarrow> ([], caught (w2\<lparr>clock := k'\<rparr>))
              | (Inr (filteredItems, feedTitle), k') \<Rightarrow>
                  (filteredItems,
                   say Log (str ''Fetched '' @ toStringRadix 10 (length filteredItems)
                              @ str '' items from '' @ feedTitle)
                     (w2\<lparr>clock := k'\<rparr>))))"

fun fetchFeeds ::
  "js_runtime \<Rightarrow> helpers \<Rightarrow> network \<Rightarrow> int option \<Rightarrow> jsstring list \<Rightarrow> rss_item list \<Rightarrow> world \<Rightarrow>
     rss_item list \<times> world" where
  "fetchFeeds rt hp net filterDays [] allItems w = (allItems, w)"
| "fetchFeeds rt hp net filterDays (rssUrl # urls) allItems w =
     (case fetchFeed rt hp net filterDays rssUrl w of
        (filteredItems, w') \<Rightarrow> fetchFeeds rt hp net filterDays urls (allItems @ filteredItems) w')"

definition urlListOf :: "jsstring \<Rightarrow> jsstring list" where
  "urlListOf rssUrls = filter (\<lambda>url. url \<noteq> []) (map trim (split_comma rssUrls))"

definition rss_fetch ::
  "js_runtime \<Rightarrow> helpers \<Rightarrow> network \<Rightarrow> rss_source \<Rightarrow> env \<Rightarrow> world \<Rightarrow> rss_payload \<times> world" where
  "rss_fetch rt hp net src e w =
     (case e (envKeyUrl src) of
        None \<Rightarrow>
          (\<lparr>p_title = None, p_items = Some []\<rparr>,
           say Warn (str (envKeyUrl src) @ str '' is not set. Skipping '' @ sourceName src
                       @ str '' fetch.'') w)
      | Some rssUrls \<Rightarrow>
          if rssUrls = [] then
            (\<lparr>p_title = None, p_items = Some []\<rparr>,
             say Warn (str (envKeyUrl src) @ str '' is not set. Skipping '' @ sourceName src
                         @ str '' fetch.'') w)
          else
            let urlList = urlListOf rssUrls;
                filterDays = parseInt10 rt (env_or e ''RSS_FILTER_DAYS'' (str ''2''));
                (allItems, w') = fetchFeeds rt hp net filterDays urlList [] w
            in (\<lparr>p_title = Some (sourceName src),
                 p_items = Some (js_sort (\<lambda>a b. newerFirst rt (Some (pubDate a)) (Some (pubDate b)))
                                   allItems)\<rparr>, w'))"

text \<open>The unified record every adapter's \<open>transform\<close> produces.\<close>

record unified_item =
  u_id :: "jsstring option"
  u_type :: jsstring
  u_url :: "jsstring option"
  u_title :: "jsstring option"
  u_description :: jsstring
  published_date :: "jsstring option"
  authors :: jsstring
  u_source :: jsstring
  content_html :: jsstring
  feed_url :: "jsstring option"

text \<open>
  \<open>transform(rawData, dataSourceType)\<close>: \<open>rawData\<close> is \<open>None\<close> when it is null or
  undefined, and its \<open>items\<close> are \<open>None\<close> when the field is absent.
\<close>

definition rss_transform ::
  "helpers \<Rightarrow> rss_source \<Rightarrow> rss_payload option \<Rightarrow> jsstring \<Rightarrow> unified_item list" where
  "rss_transform hp src rawData dataSourceType =
     (case rawData of
        None \<Rightarrow> []
      | Some raw \<Rightarrow>
          (case p_items raw of
             None \<Rightarrow> []
           | Some items \<Rightarrow>
               map (\<lambda>item.
                     \<lparr>u_id = Some (item_id item),
                      u_type = dataSourceType,
                      u_url = Some (link item),
                      u_title = Some (title item),
                      u_description = take 500 (stripHtml hp (js_or (description item) [])),
                      published_date = Some (pubDate item),
                      authors = js_or (author item) [0x672A, 0x77E5],
                      u_source = js_or (source item) (sourceName src),
                      content_html = js_or (description item) [],
                      feed_url = None\<rparr>) items))"

definition RealEstateNewsSource :: rss_source where
  "RealEstateNewsSource =
     \<lparr>sourceType = str ''news'', sourceName = [0x697C, 0x5E02, 0x8D44, 0x8BAF],
      envKeyUrl = ''RSS_REALESTATE_NEWS''\<rparr>"


definition PolicyNewsSource :: rss_source where
  "PolicyNewsSource =
     \<lparr>sourceType = str ''policy'', sourceName = [0x653F, 0x7B56, 0x52A8, 0x6001],
      envKeyUrl = ''RSS_POLICY_NEWS''\<rparr>"


section \<open>realestate-news.js, -policy.js, -market.js, -city.js: the API adapters\<close>

text \<open>
  The four adapters are one text with different constants, which \<open>api_source\<close> holds:
  the configuration keys, the default page count, the feed title and description, the
  wording of the console messages, whether the adapter reports the end of the data
  (the news adapter alone), and whether its items carry \<open>feed_url\<close> (the news adapter
  alone).
\<close>

record api_source =
  listIdKey :: string
  pagesKey :: string
  defaultPages :: string
  feedTitle :: jsstring
  feedDescription :: jsstring
  skipWarning :: string
  fetchingName :: string
  failedName :: string
  logsNoMoreData :: bool
  keepsFeedUrl :: bool

record api_item =
  i_id :: "jsstring option"
  i_url :: "jsstring option"
  i_title :: "jsstring option"
  i_content_html :: "jsstring option"
  i_date_published :: "jsstring option"
  i_authors :: "jsstring option list option"
  i_source :: "jsstring option"
  i_feed_url :: "jsstring option"

record api_payload =
  version :: jsstring
  a_title :: jsstring
  a_description :: jsstring
  language :: jsstring
  a_items :: "api_item list option"

definition opt_or :: "jsstring option \<Rightarrow> jsstring option \<Rightarrow> jsstring option" where
  "opt_or a b = (case a of None \<Rightarrow> b | Some v \<Rightarrow> if v \<noteq> [] then Some v else b)"

definition opt_or_str :: "jsstring option \<Rightarrow> jsstring \<Rightarrow> jsstring" where
  "opt_or_str a b = (case a of None \<Rightarrow> b | Some v \<Rightarrow> js_or v b)"

text \<open>
  \<open>data.data.filter(entry => isDateWithinLastDays(entry.entries.publishedAt, filterDays))\<close>:
  reading \<open>publishedAt\<close> of an entry without \<open>entries\<close> throws a TypeError.
\<close>

fun recentEntries ::
  "helpers \<Rightarrow> int option \<Rightarrow> api_entry list \<Rightarrow> js_error + (api_entries \<times> api_feeds option) list" where
  "recentEntries hp filterDays [] = Inr []"
| "recentEntries hp filterDays (entry # es) =
     (case entries entry of
        None \<Rightarrow> Inl TypeError
      | Some en \<Rightarrow>
          (case recentEntries hp filterDays es of
             Inl e \<Rightarrow> Inl e
           | Inr r \<Rightarrow>
               Inr (if isDateWithinLastDays hp (e_publishedAt en) filterDays
                    then (en, feeds entry) # r else r)))"

text \<open>The \<open>map\<close> over the filtered entries: reading \<open>entry.feeds.title\<close> can throw.\<close>

fun entryItems ::
  "api_source \<Rightarrow> (api_entries \<times> api_feeds option) list \<Rightarrow> js_error + api_item list" where
  "entryItems src [] = Inr []"
| "entryItems src ((en, fo) # es) =
     (case fo of
        None \<Rightarrow> Inl TypeError
      | Some fd \<Rightarrow>
          (case entryItems src es of
             Inl e \<Rightarrow> Inl e
           | Inr r \<Rightarrow>
               Inr (\<lparr>i_id = e_id en, i_url = e_url en, i_title = e_title en,
                     i_content_html = e_content en, i_date_published = e_publishedAt en,
                     i_authors = Some [opt_or (e_author en) (f_title fd)],
                     i_source = f_title fd,
                     i_feed_url = (if keepsFeedUrl src then f_url fd else None)\<rparr> # r)))"

definition pageItems ::
  "helpers \<Rightarrow> api_source \<Rightarrow> int option \<Rightarrow> api_entry list \<Rightarrow> js_error + api_item list" where
  "pageItems hp src filterDays es =
     (case recentEntries hp filterDays es of
        Inl e \<Rightarrow> Inl e
      | Inr filteredItems \<Rightarrow> entryItems src filteredItems)"

definition lastPublishedAt :: "api_entry list \<Rightarrow> jsstring option" where
  "lastPublishedAt es = (case entries (last es) of None \<Rightarrow> None | Some en \<Rightarrow> e_publishedAt en)"

text \<open>
  One round of the loop \<open>for (let i = 0; i < fetchPages; i++)\<close>: it ends in \<open>break\<close>,
  or it pushes the items of the page and sets \<open>publishedAfter\<close>.
\<close>

datatype round = Break world | Next "jsstring option" "api_item list" world

definition fetchPage ::
  "helpers \<Rightarrow> network \<Rightarrow> api_source \<Rightarrow> env \<Rightarrow> jsstring \<Rightarrow> int option \<Rightarrow>
     nat \<Rightarrow> jsstring option \<Rightarrow> world \<Rightarrow> round" where
  "fetchPage hp net src e lid filterDays i after w =
     (let body = \<lparr>listId = lid, publishedAfter = opt_or after None\<rparr>;
          page = str '', page '' @ toStringRadix 10 (i + 1);
          w1 = say Log (str ''Fetching '' @ str (fetchingName src) @ page @ str ''...'') w;
          w2 = issue (Post (e ''FOLO_DATA_API'') body) w1;
          caught = say Error (str ''Error fetching '' @ str (failedName src) @ page @ str '':'') w2;
          noMore =
            (if logsNoMoreData src
             then say Log (str ''No more data for '' @ str (fetchingName src) @ page @ str ''.'') w2
             else w2)
      in case http_post net (length (requests w1)) (e ''FOLO_DATA_API'') body of
           Rejected \<Rightarrow> Break caught
         | NotOk status statusText \<Rightarrow>
             Break (say Error (str ''Failed to fetch '' @ str (failedName src) @ page @ str '': ''
                                 @ statusText) w2)
         | Ok None \<Rightarrow> Break caught
         | Ok (Some d) \<Rightarrow>
             (case d of
                None \<Rightarrow> Break noMore
              | Some [] \<Rightarrow> Break noMore
              | Some (entry # es) \<Rightarrow>
                  (case pageItems hp src filterDays (entry # es) of
                     Inl err \<Rightarrow> Break caught
                   | Inr items \<Rightarrow> Next (lastPublishedAt (entry # es)) items w2)))"

fun fetchPagesLoop ::
  "helpers \<Rightarrow> network \<Rightarrow> api_source \<Rightarrow> env \<Rightarrow> jsstring \<Rightarrow> int option \<Rightarrow>
     nat \<Rightarrow> nat \<Rightarrow> jsstring option \<Rightarrow> api_item list \<Rightarrow> world \<Rightarrow> api_item list \<times> world" where
  "fetchPagesLoop hp net src e lid filterDays 0 i after allItems w = (allItems, w)"
| "fetchPagesLoop hp net src e lid filterDays (Suc n) i after allItems w =
     (case fetchPage hp net src e lid filterDays i after w of
        Break w' \<Rightarrow> (allItems, w')
      | Next after' items w' \<Rightarrow>
          fetchPagesLoop hp net src e lid filterDays n (i + 1) after' (allItems @ items) w')"

definition emptyFeed :: "api_source \<Rightarrow> api_item list \<Rightarrow> api_payload" where
  "emptyFeed src items =
     \<lparr>version = str ''https://jsonfeed.org/version/1.1'', a_title = feedTitle src,
      a_description = feedDescription src, language = str ''zh-cn'', a_items = Some items\<rparr>"

definition api_fetch ::
  "js_runtime \<Rightarrow> helpers \<Rightarrow> network \<Rightarrow> api_source \<Rightarrow> env \<Rightarrow> jsstring option \<Rightarrow> world \<Rightarrow>
     api_payload \<times> world" where
  "api_fetch rt hp net src e foloCookie w =
     (let fetchPages = parseInt10 rt (env_or e (pagesKey src) (str (defaultPages src)));
          filterDays = parseInt10 rt (env_or e ''FOLO_FILTER_DAYS'' (str ''1''))
      in case opt_or (e (listIdKey src)) None of
           None \<Rightarrow> (emptyFeed src [], say Warn (str (skipWarning src)) w)
         | Some lid \<Rightarrow>
             (let (allItems, w') =
                    fetchPagesLoop hp net src e lid filterDays
                      (case fetchPages of None \<Rightarrow> 0 | Some m \<Rightarrow> nat m) 0 None [] w
              in (emptyFeed src allItems, w')))"

fun join_comma :: "jsstring list \<Rightarrow> jsstring" where
  "join_comma [] = []"
| "join_comma [x] = x"
| "join_comma (x # y # ys) = x @ str '', '' @ join_comma (y # ys)"

definition api_transform ::
  "helpers \<Rightarrow> api_source \<Rightarrow> api_payload option \<Rightarrow> jsstring \<Rightarrow> unified_item list" where
  "api_transform hp src rawData ty =
     (case rawData of
        None \<Rightarrow> []
      | Some raw \<Rightarrow>
          (case a_items raw of
             None \<Rightarrow> []
           | Some items \<Rightarrow>
               map (\<lambda>item.
                     \<lparr>u_id = i_id item,
                      u_type = ty,
                      u_url = i_url item,
                      u_title = i_title item,
                      u_description = take 500 (stripHtml hp (opt_or_str (i_content_html item) [])),
                      published_date = i_date_published item,
                      authors =
                        (case i_authors item of
                           None \<Rightarrow> [0x672A, 0x77E5, 0x6765, 0x6E90]
                         | Some as \<Rightarrow> join_comma (map (\<lambda>name. opt_or_str name []) as)),
                      u_source = opt_or_str (i_source item) (feedTitle src),
                      content_html = opt_or_str (i_content_html item) [],
                      feed_url =
                        (if keepsFeedUrl src then Some (opt_or_str (i_feed_url item) []) else None)\<rparr>)
                 items))"


definition RealEstatePolicyDataSource :: api_source where
  "RealEstatePolicyDataSource =
     \<lparr>listIdKey = ''REALESTATE_POLICY_LIST_ID'', pagesKey = ''REALESTATE_POLICY_FETCH_PAGES'',
      defaultPages = ''2'', feedTitle = [0x653F, 0x7B56, 0x52A8, 0x6001],
      feedDescription = [0x623F, 0x5730, 0x4EA7, 0x653F, 0x7B56, 0x6CD5, 0x89C4, 0x52A8, 0x6001],
      skipWarning = ''REALESTATE_POLICY_LIST_ID is not set. Skipping policy fetch.'',
      fetchingName = ''Real Estate Policy'', failedName = ''Policy data'',
      logsNoMoreData = False, keepsFeedUrl = False\<rparr>"

definition RealEstateMarketDataSource :: api_source where
  "RealEstateMarketDataSource =
     \<lparr>listIdKey = ''REALESTATE_MARKET_LIST_ID'', pagesKey = ''REALESTATE_MARKET_FETCH_PAGES'',
      defaultPages = ''1'', feedTitle = [0x5E02, 0x573A, 0x6570, 0x636E],
      feedDescription = [0x623F, 0x5730, 0x4EA7, 0x5E02, 0x573A, 0x884C, 0x60C5, 0x6570, 0x636E],
      skipWarning = ''REALESTATE_MARKET_LIST_ID is not set. Skipping market data fetch.'',
      fetchingName = ''Real Estate Market Data'', failedName = ''Market data'',
      logsNoMoreData = False, keepsFeedUrl = False\<rparr>"

definition RealEstateCityDataSource :: api_source where
  "RealEstateCityDataSource =
     \<lparr>listIdKey = ''REALESTATE_CITY_LIST_ID'', pagesKey = ''REALESTATE_CITY_FETCH_PAGES'',
      defaultPages = ''1'', feedTitle = [0x57CE, 0x5E02, 0x805A, 0x7126],
      feedDescription = [0x91CD, 0x70B9, 0x57CE, 0x5E02, 0x697C, 0x5E02, 0x52A8, 0x6001],
      skipWarning = ''REALESTATE_CITY_LIST_ID is not set. Skipping city data fetch.'',
      fetchingName = ''Real Estate City Data'', failedName = ''City data'',
      logsNoMoreData = False, keepsFeedUrl = False\<rparr>"

section \<open>dataFetchers.js: the registry and the aggregator\<close>

text \<open>
  A registered source is an object with a \<open>type\<close> and the methods \<open>fetch\<close> and
  \<open>transform\<close>; either method can throw.
\<close>

record 'p adapter =
  a_type :: jsstring
  a_fetch :: "env \<Rightarrow> jsstring option \<Rightarrow> world \<Rightarrow> (js_error + 'p) \<times> world"
  a_transform :: "'p option \<Rightarrow> jsstring \<Rightarrow> js_error + unified_item list"


record 'p registration =
  name :: jsstring
  sources :: "'p adapter list"








section \<open>A sample engine and sample inputs\<close>

text \<open>
  The concrete inputs of the examples below. \<open>isoString\<close> is \<open>toISOString\<close> as
  ECMAScript defines it (the days are turned into a civil date by counting in eras of
  400 years from 1 March of year 0). The sample engine parses the dates listed and takes
  every other string as an invalid date, decodes a decimal character reference by its
  value, and knows the host of one URL.
\<close>

definition pad :: "nat \<Rightarrow> nat \<Rightarrow> jsstring" where
  "pad n v = replicate (n - length (toStringRadix 10 v)) 0x30 @ toStringRadix 10 v"

definition isoString :: "int \<Rightarrow> jsstring" where
  "isoString t =
     (let ms = nat (t mod 86400000);
          z = t div 86400000 + 719468;
          era = z div 146097;
          doe = nat (z mod 146097);
          yoe = (doe - doe div 1460 + doe div 36524 - doe div 146096) div 365;
          doy = doe - (365 * yoe + yoe div 4 - yoe div 100);
          mp = (5 * doy + 2) div 153;
          d = doy - (153 * mp + 2) div 5 + 1;
          m = (if mp < 10 then mp + 3 else mp - 9);
          y = int yoe + era * 400 + (if m \<le> 2 then 1 else 0)
      in (if 0 \<le> y \<and> y \<le> 9999 then pad 4 (nat y)
          else (if y < 0 then str ''-'' else str ''+'') @ pad 6 (nat \<bar>y\<bar>))
         @ str ''-'' @ pad 2 m @ str ''-'' @ pad 2 d @ str ''T'' @ pad 2 (ms div 3600000)
         @ str '':'' @ pad 2 (ms div 60000 mod 60) @ str '':'' @ pad 2 (ms div 1000 mod 60)
         @ str ''.'' @ pad 3 (ms mod 1000) @ str ''Z'')"

definition sampleRuntime :: js_runtime where
  "sampleRuntime =
     \<lparr>Date_parse =
        (\<lambda>s. if s = str ''Mon, 01 Jan 2024 00:00:00 GMT'' \<or> s = str ''2024-01-01T00:00:00.000Z''
              then Some 1704067200000
              else if s = str ''Tue, 02 Jan 2024 00:00:00 GMT'' \<or> s = str ''2024-01-02T00:00:00.000Z''
              then Some 1704153600000
              else None),
      Date_now = (\<lambda>k. 1704240000000 + int k),
      toISOString = isoString,
      fromCharCode = (\<lambda>ds. foldl (\<lambda>n d. 10 * n + (d - 48)) 0 ds mod 65536),
      URL_hostname = (\<lambda>u. if u = str ''https://a.example/feed'' then Some (str ''a.example'') else None),
      parseInt10 =
        (\<lambda>s. if s = str ''1'' then Some 1 else if s = str ''2'' then Some 2 else None)\<rparr>"

text \<open>
  Modelled from the spec: the two functions of \<open>helpers.js\<close>, which is not among the
  sources. The recency test keeps a date when \<open>now - publishedAt\<close> is at most the given
  number of days, with \<open>now\<close> the sample clock's first reading; the stripper removes
  what stands between \<open><\<close> and \<open>>\<close>.
\<close>

fun stripTags :: "bool \<Rightarrow> jsstring \<Rightarrow> jsstring" where
  "stripTags inTag [] = []"
| "stripTags inTag (c # cs) =
     (if inTag then stripTags (c \<noteq> 0x3E) cs
      else if c = 0x3C then stripTags True cs
      else c # stripTags False cs)"

definition sampleHelpers :: helpers where
  "sampleHelpers =
     \<lparr>isDateWithinLastDays =
        (\<lambda>d days.
           case (timeOf sampleRuntime d, days) of
             (Some t, Some n) \<Rightarrow> Date_now sampleRuntime 0 - t \<le> n * 86400000
           | _ \<Rightarrow> False),
      stripHtml = stripTags False\<rparr>"

definition feedA :: jsstring where
  "feedA = str (''<rss><channel><title>Feed A</title><item><title>Old &amp; new</title>''
     @ ''<link>http://a.example/1</link><pubDate>Mon, 01 Jan 2024 00:00:00 GMT</pubDate></item>''
     @ ''</channel></rss>'')"

definition feedC :: jsstring where
  "feedC = str (''<rss><channel><title>Feed C</title><item><title>Newer</title>''
     @ ''<link>http://c.example/1</link><pubDate>Tue, 02 Jan 2024 00:00:00 GMT</pubDate></item>''
     @ ''</channel></rss>'')"

definition sampleEntry :: api_entry where
  "sampleEntry =
     \<lparr>entries = Some \<lparr>e_id = Some (str ''e1''), e_url = Some (str ''http://a.example/1''),
                      e_title = Some (str ''First''), e_content = Some (str ''<p>Text</p>''),
                      e_publishedAt = Some (str ''2024-01-02T00:00:00.000Z''), e_author = None\<rparr>,
      feeds = Some \<lparr>f_title = Some (str ''Feed A''), f_url = Some (str ''https://a.example/feed'')\<rparr>\<rparr>"

text \<open>
  The sample network: of three feeds the second answers with status 500; the API holds
  one page of entries and answers the request for the page after it with empty data.
\<close>

definition sampleNetwork :: network where
  "sampleNetwork =
     \<lparr>http_get =
        (\<lambda>n url. if url = str ''https://a.example/feed'' then Ok (Some feedA)
                 else if url = str ''https://b.example/feed'' then NotOk 500 (str ''Internal Server Error'')
                 else if url = str ''https://c.example/feed'' then Ok (Some feedC)
                 else Rejected),
      http_post =
        (\<lambda>n url body. case publishedAfter body of
                          None \<Rightarrow> Ok (Some (Some [sampleEntry]))
                        | Some after \<Rightarrow> Ok (Some (Some [])))\<rparr>"

definition sampleEnv :: env where
  "sampleEnv =
     [''RSS_REALESTATE_NEWS'' \<mapsto>
        str ''https://a.example/feed, https://b.example/feed, https://c.example/feed'',
      ''REALESTATE_NEWS_LIST_ID'' \<mapsto> str ''list-1'',
      ''FOLO_DATA_API'' \<mapsto> str ''https://api.example/entries'']"

definition badFeed :: jsstring where
  "badFeed = str (''<item><title>A</title><link>http://a.example/1</link>''
     @ ''<pubDate>garbage</pubDate></item>''
     @ ''<item><title>B</title><link>http://a.example/2</link>''
     @ ''<pubDate>Tue, 02 Jan 2024 00:00:00 GMT</pubDate></item>'')"

definition mixedFeed :: jsstring where
  "mixedFeed = str (''<item><title>A &amp; B</title><link>L1</link></item>''
     @ ''<item><title>No link</title></item><item><link>L3</link></item>'')"

definition titleOnlyFeed :: jsstring where
  "titleOnlyFeed = str ''<item><title>Only a title</title></item>''"

definition undatedFeed :: jsstring where
  "undatedFeed = str ''<item><title>T</title><link>L</link></item>''"

definition datedFeed :: jsstring where
  "datedFeed = str (''<item><title>T</title><link>L</link>''
     @ ''<pubDate>Mon, 01 Jan 2024 00:00:00 GMT</pubDate></item>'')"

definition world0 :: world where
  "world0 = \<lparr>clock = 0, requests = [], console = []\<rparr>"

text \<open>What the sample RSS source, the sample aggregation and the sample API give.\<close>

definition itemA :: rss_item where
  "itemA = \<lparr>title = str ''Old & new'', link = str ''http://a.example/1'', description = [],
             pubDate = str ''2024-01-01T00:00:00.000Z'', author = [],
             source = str ''Feed A'', item_id = str ''s8duxf''\<rparr>"

definition itemC :: rss_item where
  "itemC = \<lparr>title = str ''Newer'', link = str ''http://c.example/1'', description = [],
             pubDate = str ''2024-01-02T00:00:00.000Z'', author = [],
             source = str ''Feed C'', item_id = str ''gmzm1d''\<rparr>"







section \<open>Evaluating the model on concrete strings\<close>

text \<open>
  Rewrite rules that let the simplifier run the matcher: a scan passes a code unit other
  than the first one of the pattern in one step.
\<close>

lemma same_cu_lt: "c \<noteq> 60 \<Longrightarrow> \<not> same_cu ci 60 c"
  by (auto simp: same_cu_def canon_def split: if_splits)

lemma rx_search_skip:
  "c \<noteq> 60 \<Longrightarrow>
   rx_search ci (Lit (60 # l) # r) (c # cs) = rx_search ci (Lit (60 # l) # r) cs"
  by (simp add: same_cu_lt)

lemma rx_search_hit:
  "rx_search ci r (60 # cs) =
     (case rx_at ci r (60 # cs) of Some m \<Rightarrow> Some m | None \<Rightarrow> rx_search ci r cs)"
  by simp

lemma rx_search_end: "rx_search ci (Lit (p # l) # r) [] = None"
  by simp

lemma rx_replace_end: "rx_replace ci (Lit (p # l) # r) f [] = []"
  by (simp add: rx_replace.simps)

lemma rx_replace_skip:
  "c \<noteq> 38 \<Longrightarrow>
   rx_replace False (Lit (38 # l) # r) f (c # cs) = c # rx_replace False (Lit (38 # l) # r) f cs"
  by (subst rx_replace.simps) (simp add: same_cu_def)

lemma rx_replace_hit:
  "rx_replace ci r f (38 # cs) =
     (case rx_at ci r (38 # cs) of
        None \<Rightarrow> 38 # rx_replace ci r f cs
      | Some (g, rest) \<Rightarrow>
          if length rest < Suc (length cs) then f g @ rx_replace ci r f rest
          else f g @ 38 # rx_replace ci r f cs)"
  by (subst rx_replace.simps) (auto split: option.splits)

lemma toStringRadix_digit: "n < b \<Longrightarrow> toStringRadix b n = [digit n]"
  by (subst toStringRadix.simps) simp

lemma toStringRadix_more:
  "\<not> n < b \<Longrightarrow> 2 \<le> b \<Longrightarrow>
   toStringRadix b n = toStringRadix b (n div b) @ [digit (n mod b)]"
  by (subst toStringRadix.simps) simp

lemma replicate_num: "replicate (numeral k) x = x # replicate (pred_numeral k) x"
  by (simp add: numeral_eq_Suc)

lemmas rx_eval =
  extractTag_def extractAtomLink_def cdataRegex_def tagRegex_def blockRegex_def altLinkRegex_def
  hrefRegex_def quote_def str_def counts_def run_def canon_def same_cu_def trim_def is_space_def
  rssFields_def atomFields_def js_or_def rx_search_skip rx_search_hit rx_search_end
  exec_blocks.simps decodeHTMLEntities_def rx_replace_end rx_replace_skip rx_replace_hit

lemmas num_eval = pad_def toStringRadix_digit toStringRadix_more digit_def str_def replicate_num

lemma str_nonempty: "str (c # cs) \<noteq> []"
  by (simp add: str_def)

lemma decode_empty: "decodeHTMLEntities rt [] = []"
  by (simp add: decodeHTMLEntities_def)

lemma decode_Date_now: "decodeHTMLEntities (rt\<lparr>Date_now := c\<rparr>) s = decodeHTMLEntities rt s"
  by (simp add: decodeHTMLEntities_def)

lemma sample_now: "Date_now sampleRuntime k = 1704240000000 + int k"
  and sample_iso: "toISOString sampleRuntime = isoString"
  by (simp_all add: sampleRuntime_def)

lemma sample_parse:
  "Date_parse sampleRuntime (str ''Mon, 01 Jan 2024 00:00:00 GMT'') = Some 1704067200000"
  "Date_parse sampleRuntime (str ''Tue, 02 Jan 2024 00:00:00 GMT'') = Some 1704153600000"
  "Date_parse sampleRuntime (str ''2024-01-01T00:00:00.000Z'') = Some 1704067200000"
  "Date_parse sampleRuntime (str ''2024-01-02T00:00:00.000Z'') = Some 1704153600000"
  "Date_parse sampleRuntime (str ''garbage'') = None"
  by (simp_all add: sampleRuntime_def str_def)

lemma isoString_values:
  "isoString 0 = str ''1970-01-01T00:00:00.000Z''"
  "isoString 1000 = str ''1970-01-01T00:00:01.000Z''"
  "isoString 1704067200000 = str ''2024-01-01T00:00:00.000Z''"
  "isoString 1704153600000 = str ''2024-01-02T00:00:00.000Z''"
  "isoString 1704240000000 = str ''2024-01-03T00:00:00.000Z''"
  unfolding isoString_def Let_def by (simp_all add: num_eval)

lemma badFeed_blocks:
  "map rssFields (exec_blocks ''item'' badFeed) =
     [\<lparr>title = str ''A'', link = str ''http://a.example/1'', description = [],
        pubDate = str ''garbage'', author = []\<rparr>,
      \<lparr>title = str ''B'', link = str ''http://a.example/2'', description = [],
        pubDate = str ''Tue, 02 Jan 2024 00:00:00 GMT'', author = []\<rparr>]"
  by (simp add: badFeed_def rx_eval del: rx_search.simps)

lemma mixedFeed_blocks:
  "map rssFields (exec_blocks ''item'' mixedFeed) =
     [\<lparr>title = str ''A &amp; B'', link = str ''L1'', description = [], pubDate = [], author = []\<rparr>,
      \<lparr>title = str ''No link'', link = [], description = [], pubDate = [], author = []\<rparr>,
      \<lparr>title = [], link = str ''L3'', description = [], pubDate = [], author = []\<rparr>]"
  by (simp add: mixedFeed_def rx_eval del: rx_search.simps)

lemma titleOnlyFeed_blocks:
  "map rssFields (exec_blocks ''item'' titleOnlyFeed) =
     [\<lparr>title = str ''Only a title'', link = [], description = [], pubDate = [], author = []\<rparr>]"
  "exec_blocks ''entry'' titleOnlyFeed = []"
  by (simp_all add: titleOnlyFeed_def rx_eval del: rx_search.simps)

lemma undatedFeed_blocks:
  "map rssFields (exec_blocks ''item'' undatedFeed) =
     [\<lparr>title = str ''T'', link = str ''L'', description = [], pubDate = [], author = []\<rparr>]"
  by (simp add: undatedFeed_def rx_eval del: rx_search.simps)

lemma datedFeed_blocks:
  "map rssFields (exec_blocks ''item'' datedFeed) =
     [\<lparr>title = str ''T'', link = str ''L'', description = [],
        pubDate = str ''Mon, 01 Jan 2024 00:00:00 GMT'', author = []\<rparr>]"
  "exec_blocks ''entry'' datedFeed = []"
  by (simp_all add: datedFeed_def rx_eval del: rx_search.simps)

lemma decode_samples:
  "decodeHTMLEntities rt (str ''A &amp; B'') = str ''A & B''"
  "decodeHTMLEntities rt (str ''T'') = str ''T''"
  by (simp_all add: rx_eval del: rx_search.simps)

lemma feedA_blocks:
  "map rssFields (exec_blocks ''item'' feedA) =
     [\<lparr>title = str ''Old &amp; new'', link = str ''http://a.example/1'', description = [],
        pubDate = str ''Mon, 01 Jan 2024 00:00:00 GMT'', author = []\<rparr>]"
  "extractTag feedA ''title'' = str ''Feed A''"
  by (simp_all add: feedA_def rx_eval del: rx_search.simps)

lemma feedC_blocks:
  "map rssFields (exec_blocks ''item'' feedC) =
     [\<lparr>title = str ''Newer'', link = str ''http://c.example/1'', description = [],
        pubDate = str ''Tue, 02 Jan 2024 00:00:00 GMT'', author = []\<rparr>]"
  "extractTag feedC ''title'' = str ''Feed C''"
  by (simp_all add: feedC_def rx_eval del: rx_search.simps)

lemma decode_feed_samples:
  "decodeHTMLEntities rt (str ''Old &amp; new'') = str ''Old & new''"
  "decodeHTMLEntities rt (str ''Newer'') = str ''Newer''"
  "decodeHTMLEntities rt (str ''Feed A'') = str ''Feed A''"
  "decodeHTMLEntities rt (str ''Feed C'') = str ''Feed C''"
  by (simp_all add: rx_eval del: rx_search.simps)

lemma sample_ids:
  "generateItemId (str ''http://a.example/1'') = str ''s8duxf''"
  "generateItemId (str ''http://c.example/1'') = str ''gmzm1d''"
  by (simp_all add: generateItemId_def num_eval)


lemma sample_within:
  "isDateWithinLastDays sampleHelpers (Some (str ''2024-01-01T00:00:00.000Z'')) (Some 2)"
  "isDateWithinLastDays sampleHelpers (Some (str ''2024-01-02T00:00:00.000Z'')) (Some 2)"
  "isDateWithinLastDays sampleHelpers (Some (str ''2024-01-02T00:00:00.000Z'')) (Some 1)"
  by (simp_all add: sampleHelpers_def timeOf_def sample_parse sample_now)

lemma feedItems_A:
  "feedItems sampleRuntime sampleHelpers (Some 2) u feedA k = (Inr ([itemA], str ''Feed A''), k)"
  by (simp add: feedItems_def parseRSSFeed_def feedA_blocks hasTitleAndLink_def isoDate_def
      str_nonempty sample_parse sample_iso isoString_values decode_feed_samples decode_empty
      js_or_def sample_within sample_ids itemA_def feed_item.defs rss_item.defs)

lemma feedItems_C:
  "feedItems sampleRuntime sampleHelpers (Some 2) u feedC k = (Inr ([itemC], str ''Feed C''), k)"
  by (simp add: feedItems_def parseRSSFeed_def feedC_blocks hasTitleAndLink_def isoDate_def
      str_nonempty sample_parse sample_iso isoString_values decode_feed_samples decode_empty
      js_or_def sample_within sample_ids itemC_def feed_item.defs rss_item.defs)

lemma sample_get:
  "http_get sampleNetwork n (str ''https://a.example/feed'') = Ok (Some feedA)"
  "http_get sampleNetwork n (str ''https://b.example/feed'') = NotOk 500 (str ''Internal Server Error'')"
  "http_get sampleNetwork n (str ''https://c.example/feed'') = Ok (Some feedC)"
  by (simp_all add: sampleNetwork_def str_def)

lemma fetchFeed_samples:
  "fst (fetchFeed sampleRuntime sampleHelpers sampleNetwork (Some 2) (str ''https://a.example/feed'') w)
     = [itemA]"
  "fst (fetchFeed sampleRuntime sampleHelpers sampleNetwork (Some 2) (str ''https://b.example/feed'') w)
     = []"
  "fst (fetchFeed sampleRuntime sampleHelpers sampleNetwork (Some 2) (str ''https://c.example/feed'') w)
     = [itemC]"
  unfolding fetchFeed_def Let_def by (simp_all add: sample_get feedItems_A feedItems_C)

lemma sample_urls:
  "urlListOf (str ''https://a.example/feed, https://b.example/feed, https://c.example/feed'') =
     [str ''https://a.example/feed'', str ''https://b.example/feed'', str ''https://c.example/feed'']"
  by (simp add: urlListOf_def trim_def is_space_def str_def)

lemma sample_env:
  "sampleEnv ''RSS_REALESTATE_NEWS'' =
     Some (str ''https://a.example/feed, https://b.example/feed, https://c.example/feed'')"
  "parseInt10 sampleRuntime (env_or sampleEnv ''RSS_FILTER_DAYS'' (str ''2'')) = Some 2"
  "sampleEnv ''REALESTATE_NEWS_LIST_ID'' = Some (str ''list-1'')"
  "sampleEnv ''FOLO_DATA_API'' = Some (str ''https://api.example/entries'')"
  "parseInt10 sampleRuntime (env_or sampleEnv ''FOLO_FILTER_DAYS'' (str ''1'')) = Some 1"
  "parseInt10 sampleRuntime (env_or sampleEnv ''REALESTATE_NEWS_FETCH_PAGES'' (str ''2'')) = Some 2"
  by (simp_all add: sampleEnv_def env_or_def sampleRuntime_def str_def)

lemma sample_sorted:
  "js_sort (\<lambda>a b. newerFirst sampleRuntime (Some (pubDate a)) (Some (pubDate b))) [itemA, itemC]
     = [itemC, itemA]"
  by (simp add: js_sort_def newerFirst_def timeOf_def itemA_def itemC_def sample_parse)







section \<open>Properties\<close>

subsection \<open>The feed parser\<close>

text \<open>
  What the two loops push: the items added to \<open>items\<close> are, in order, the blocks
  that have both a title and a link.
\<close>

lemma pushItems_shape:
  "pushItems rt fs items k = (Inr out, k') \<Longrightarrow>
   \<exists>new. out = items @ new \<and>
     list_all2 (\<lambda>item f. link item = link f \<and> title item = decodeHTMLEntities rt (title f)
                  \<and> description item = description f)
       new (filter hasTitleAndLink fs)"
proof (induction fs arbitrary: items k)
  case Nil
  then show ?case by simp
next
  case (Cons f fs)
  show ?case
  proof (cases "hasTitleAndLink f")
    case False
    with Cons show ?thesis by simp
  next
    case True
    with Cons.prems obtain d k1 where d: "isoDate rt k (pubDate f) = (Inr d, k1)"
      and rest: "pushItems rt fs
           (items @ [\<lparr>title = decodeHTMLEntities rt (title f), link = link f,
                      description = description f, pubDate = d,
                      author = decodeHTMLEntities rt (js_or (author f) [])\<rparr>]) k1 = (Inr out, k')"
      by (auto split: prod.splits sum.splits)
    from Cons.IH [OF rest] True show ?thesis by auto
  qed
qed

text \<open>When every block that is pushed has a date field, the clock is not read.\<close>

lemma pushItems_undated_free:
  "\<forall>f \<in> set fs. hasTitleAndLink f \<longrightarrow> pubDate f \<noteq> [] \<Longrightarrow>
   pushItems (rt\<lparr>Date_now := c\<rparr>) fs items k = (fst (pushItems rt fs items k'), k)"
proof (induction fs arbitrary: items)
  case Nil
  then show ?case by simp
next
  case (Cons f fs)
  then show ?case
    by (cases "Date_parse rt (pubDate f)") (simp_all add: isoDate_def decode_Date_now)
qed

lemma mixed_parse:
  "parseRSSFeed sampleRuntime 0 mixedFeed =
    (Inr [\<lparr>title = str ''A & B'', link = str ''L1'', description = [],
           pubDate = str ''2024-01-03T00:00:00.000Z'', author = []\<rparr>], 1)"
  by (simp add: parseRSSFeed_def mixedFeed_blocks hasTitleAndLink_def isoDate_def str_nonempty
      decode_samples js_or_def decode_empty sample_now sample_iso isoString_values)

text \<open>
  Claim C1 says that \<open>parseRSSFeed\<close> returns a list for every input and skips a malformed
  block. The code throws instead: in every engine in which \<open>new Date("garbage")\<close> is an
  invalid date, \<open>toISOString\<close> raises a RangeError on the first item of \<open>badFeed\<close>,
  and the exception leaves \<open>parseRSSFeed\<close>, which returns nothing, the well-formed second
  item included.
\<close>

theorem parser_throws_on_invalid_date:
  "parseRSSFeed (rt\<lparr>Date_parse := (Date_parse rt)(str ''garbage'' := None)\<rparr>) k badFeed
     = (Inl RangeError, k)"
  by (simp add: parseRSSFeed_def badFeed_blocks hasTitleAndLink_def isoDate_def str_nonempty)

text \<open>
  Claim C2 says that a date field that is present but does not parse is replaced by the
  current time and the item still emitted. The code replaces an absent date only: on a
  block with title and link whose date field is not empty and is an invalid date, the loop
  body throws a RangeError, reads no clock and emits nothing.
\<close>

theorem invalid_date_not_replaced:
  "hasTitleAndLink f \<Longrightarrow> pubDate f \<noteq> [] \<Longrightarrow> Date_parse rt (pubDate f) = None \<Longrightarrow>
   pushItems rt (f # fs) items k = (Inl RangeError, k)"
  by (simp add: isoDate_def)

theorem invalid_date_not_replaced_witness:
  "map rssFields (exec_blocks ''item'' badFeed) =
     [\<lparr>title = str ''A'', link = str ''http://a.example/1'', description = [],
        pubDate = str ''garbage'', author = []\<rparr>,
      \<lparr>title = str ''B'', link = str ''http://a.example/2'', description = [],
        pubDate = str ''Tue, 02 Jan 2024 00:00:00 GMT'', author = []\<rparr>] \<and>
   hasTitleAndLink \<lparr>title = str ''A'', link = str ''http://a.example/1'', description = [],
                     pubDate = str ''garbage'', author = []\<rparr> \<and>
   Date_parse sampleRuntime (str ''garbage'') = None \<and>
   pushItems sampleRuntime (map rssFields (exec_blocks ''item'' badFeed)) [] 0 = (Inl RangeError, 0)"
  using invalid_date_not_replaced
    [of "\<lparr>title = str ''A'', link = str ''http://a.example/1'', description = [],
          pubDate = str ''garbage'', author = []\<rparr>" sampleRuntime
        "[\<lparr>title = str ''B'', link = str ''http://a.example/2'', description = [],
           pubDate = str ''Tue, 02 Jan 2024 00:00:00 GMT'', author = []\<rparr>]" "[]" 0]
  by (simp add: badFeed_blocks hasTitleAndLink_def str_nonempty sample_parse)

text \<open>
  Claim C3 says that a block is skipped exactly when it lacks both title and link, so that
  a block with one of them is emitted. The guard of the code is \<open>title && link\<close>: the one
  block of \<open>titleOnlyFeed\<close> has a title and is not emitted.
\<close>

theorem title_alone_not_emitted:
  "map rssFields (exec_blocks ''item'' titleOnlyFeed) =
     [\<lparr>title = str ''Only a title'', link = [], description = [], pubDate = [], author = []\<rparr>] \<and>
   parseRSSFeed sampleRuntime 0 titleOnlyFeed = (Inr [], 0)"
  by (simp add: parseRSSFeed_def titleOnlyFeed_blocks hasTitleAndLink_def)

text \<open>
  Claim C3, amended. The parser skips a block exactly when its title or its link is empty:
  whenever \<open>parseRSSFeed\<close> returns, its items are, one for one and in order, the blocks
  that have both a title and a link (the \<open>item\<close> blocks, or the \<open>entry\<close> blocks when no
  \<open>item\<close> block has both), each with the block's link and description and its decoded
  title.
\<close>

theorem emitted_blocks_have_title_and_link:
  assumes "parseRSSFeed rt k xmlText = (Inr out, k')"
  shows "list_all2 (\<lambda>item f. link item = link f \<and> title item = decodeHTMLEntities rt (title f)
                      \<and> description item = description f)
           out
           (filter hasTitleAndLink
              (if filter hasTitleAndLink (map rssFields (exec_blocks ''item'' xmlText)) = []
               then map atomFields (exec_blocks ''entry'' xmlText)
               else map rssFields (exec_blocks ''item'' xmlText)))"
proof (cases "pushItems rt (map rssFields (exec_blocks ''item'' xmlText)) [] k")
  case (Pair r k1)
  show ?thesis
  proof (cases r)
    case (Inl e)
    with Pair assms show ?thesis by (simp add: parseRSSFeed_def)
  next
    case (Inr items)
    from pushItems_shape [of rt _ "[]" k items k1] Pair Inr
    have shape: "list_all2 (\<lambda>item f. link item = link f
                   \<and> title item = decodeHTMLEntities rt (title f)
                   \<and> description item = description f)
           items (filter hasTitleAndLink (map rssFields (exec_blocks ''item'' xmlText)))"
      by simp
    show ?thesis
    proof (cases "items = []")
      case True
      with shape have none: "filter hasTitleAndLink (map rssFields (exec_blocks ''item'' xmlText)) = []"
        by simp
      from True Pair Inr assms
      have "pushItems rt (map atomFields (exec_blocks ''entry'' xmlText)) [] k1 = (Inr out, k')"
        by (simp add: parseRSSFeed_def)
      from pushItems_shape [OF this] none show ?thesis by simp
    next
      case False
      with shape have some: "filter hasTitleAndLink (map rssFields (exec_blocks ''item'' xmlText)) \<noteq> []"
        by auto
      from False Pair Inr assms have "out = items" by (simp add: parseRSSFeed_def)
      with shape some show ?thesis by simp
    qed
  qed
qed

theorem emitted_blocks_have_title_and_link_witness:
  "parseRSSFeed sampleRuntime 0 mixedFeed =
     (Inr [\<lparr>title = str ''A & B'', link = str ''L1'', description = [],
            pubDate = str ''2024-01-03T00:00:00.000Z'', author = []\<rparr>], 1) \<and>
   filter hasTitleAndLink (map rssFields (exec_blocks ''item'' mixedFeed)) =
     [\<lparr>title = str ''A &amp; B'', link = str ''L1'', description = [], pubDate = [], author = []\<rparr>]"
  using emitted_blocks_have_title_and_link [OF mixed_parse]
  by (simp add: mixed_parse mixedFeed_blocks hasTitleAndLink_def str_nonempty)

text \<open>
  Claim C4 says that two invocations on the same string yield identical output. An
  emitted block without a date field is stamped with the time of the call, so the two
  outputs differ when the clock has moved between the invocations.
\<close>

theorem clock_changes_output:
  "fst (parseRSSFeed (sampleRuntime\<lparr>Date_now := \<lambda>k. 0\<rparr>) 0 undatedFeed) \<noteq>
   fst (parseRSSFeed (sampleRuntime\<lparr>Date_now := \<lambda>k. 1000\<rparr>) 0 undatedFeed)"
  by (simp add: parseRSSFeed_def undatedFeed_blocks hasTitleAndLink_def isoDate_def str_nonempty
      sample_iso isoString_values str_def)

text \<open>
  Claim C4, amended. Parsing is deterministic apart from the clock: when every block
  with a title and a link has a non-empty date field, two invocations on the same string
  yield the same result (the same ordered list, or the same exception) whatever the
  clock reads and however often it was read before.
\<close>

theorem dated_feed_deterministic:
  assumes "\<forall>f \<in> set (map rssFields (exec_blocks ''item'' xmlText)
                      @ map atomFields (exec_blocks ''entry'' xmlText)).
             hasTitleAndLink f \<longrightarrow> pubDate f \<noteq> []"
  shows "fst (parseRSSFeed (rt\<lparr>Date_now := c\<rparr>) k xmlText) = fst (parseRSSFeed rt k' xmlText)"
proof -
  from assms have a: "\<forall>f \<in> set (map rssFields (exec_blocks ''item'' xmlText)).
      hasTitleAndLink f \<longrightarrow> pubDate f \<noteq> []"
    and b: "\<forall>f \<in> set (map atomFields (exec_blocks ''entry'' xmlText)).
      hasTitleAndLink f \<longrightarrow> pubDate f \<noteq> []"
    by auto
  show ?thesis
    unfolding parseRSSFeed_def
    by (simp add: pushItems_undated_free [OF a, where k' = k']
        pushItems_undated_free
          [OF b, where k' = "snd (pushItems rt (map rssFields (exec_blocks ''item'' xmlText)) [] k')"]
        split: prod.splits sum.splits)
qed

theorem dated_feed_deterministic_witness:
  "map rssFields (exec_blocks ''item'' datedFeed) =
     [\<lparr>title = str ''T'', link = str ''L'', description = [],
        pubDate = str ''Mon, 01 Jan 2024 00:00:00 GMT'', author = []\<rparr>] \<and>
   exec_blocks ''entry'' datedFeed = [] \<and>
   fst (parseRSSFeed (sampleRuntime\<lparr>Date_now := \<lambda>k. 0\<rparr>) 0 datedFeed) =
   fst (parseRSSFeed sampleRuntime 5 datedFeed)"
  using dated_feed_deterministic
    [where xmlText = datedFeed and rt = sampleRuntime and c = "\<lambda>k. 0" and k = 0 and k' = 5]
  by (simp add: datedFeed_blocks str_nonempty)

subsection \<open>Sorting by date\<close>

lemma mset_js_insort: "mset (js_insort cmp x ys) = add_mset x (mset ys)"
  by (induction ys) auto

lemma mset_js_sort: "mset (js_sort cmp xs) = mset xs"
  by (induction xs) (auto simp: js_sort_def mset_js_insort)






subsection \<open>The loop over the feed URLs\<close>

lemma fetchFeed_requests:
  "requests (snd (fetchFeed rt hp net fd u w)) = requests w @ [Get u]"
  unfolding fetchFeed_def Let_def
  by (simp add: say_def issue_def split: http.splits option.splits prod.splits sum.splits)

lemma fetchFeeds_requests:
  "requests (snd (fetchFeeds rt hp net fd urls allItems w)) = requests w @ map Get urls"
proof (induction urls arbitrary: allItems w)
  case Nil
  then show ?case by simp
next
  case (Cons u urls)
  obtain x w' where r: "fetchFeed rt hp net fd u w = (x, w')" by (cases "fetchFeed rt hp net fd u w")
  with fetchFeed_requests [of rt hp net fd u w] have "requests w' = requests w @ [Get u]" by simp
  with Cons r show ?case by simp
qed

lemma fetchFeeds_acc:
  "fetchFeeds rt hp net fd urls allItems w =
     (allItems @ fst (fetchFeeds rt hp net fd urls [] w), snd (fetchFeeds rt hp net fd urls [] w))"
proof (induction urls arbitrary: allItems w)
  case Nil
  then show ?case by simp
next
  case (Cons u urls)
  obtain x w' where r: "fetchFeed rt hp net fd u w = (x, w')" by (cases "fetchFeed rt hp net fd u w")
  from Cons [of "allItems @ x" w'] Cons [of x w'] r show ?case by simp
qed

lemma fetchFeeds_append:
  "fetchFeeds rt hp net fd (pre @ post) allItems w =
     fetchFeeds rt hp net fd post (fst (fetchFeeds rt hp net fd pre allItems w))
       (snd (fetchFeeds rt hp net fd pre allItems w))"
proof (induction pre arbitrary: allItems w)
  case Nil
  then show ?case by simp
next
  case (Cons u pre)
  obtain x w' where r: "fetchFeed rt hp net fd u w = (x, w')" by (cases "fetchFeed rt hp net fd u w")
  with Cons show ?case by simp
qed

lemma fetchFeed_failed:
  assumes "http_get net (length (requests w)) u = Rejected \<or>
           http_get net (length (requests w)) u = NotOk st tx"
  shows "fst (fetchFeed rt hp net fd u w) = [] \<and> clock (snd (fetchFeed rt hp net fd u w)) = clock w"
  using assms unfolding fetchFeed_def Let_def by (auto simp: say_def issue_def)

lemma rss_fetch_configured:
  assumes "e (envKeyUrl src) = Some rssUrls" and "rssUrls \<noteq> []"
  shows "rss_fetch rt hp net src e w =
    (\<lparr>p_title = Some (sourceName src),
      p_items = Some (js_sort (\<lambda>a b. newerFirst rt (Some (pubDate a)) (Some (pubDate b)))
         (fst (fetchFeeds rt hp net (parseInt10 rt (env_or e ''RSS_FILTER_DAYS'' (str ''2'')))
                 (urlListOf rssUrls) [] w)))\<rparr>,
     snd (fetchFeeds rt hp net (parseInt10 rt (env_or e ''RSS_FILTER_DAYS'' (str ''2'')))
            (urlListOf rssUrls) [] w))"
  using assms unfolding rss_fetch_def Let_def by (simp split: prod.splits)

text \<open>
  Claim C8. Let the configured URL list be \<open>pre @ u # post\<close> and let the request for
  \<open>u\<close> fail, by a rejected \<open>fetch\<close> or by a status that is not ok. Then the round for
  \<open>u\<close> adds no item and leaves the clock alone, the loop goes on with \<open>post\<close>, every
  URL of the list is requested once and in order, and the items of the adapter's output
  are exactly the items of the feeds before \<open>u\<close> together with the items of the feeds
  after it.
\<close>

theorem failed_feed_does_not_abort:
  assumes env: "e (envKeyUrl src) = Some rssUrls" "rssUrls \<noteq> []"
    and urls: "urlListOf rssUrls = pre @ u # post"
    and fails: "http_get net (length (requests w) + length pre) u = Rejected \<or>
                http_get net (length (requests w) + length pre) u = NotOk st tx"
    and fd: "fd = parseInt10 rt (env_or e ''RSS_FILTER_DAYS'' (str ''2''))"
    and w1: "w1 = snd (fetchFeeds rt hp net fd pre [] w)"
    and w2: "w2 = snd (fetchFeed rt hp net fd u w1)"
  shows "clock w2 = clock w1 \<and> requests w2 = requests w1 @ [Get u] \<and>
         (\<exists>out. p_items (fst (rss_fetch rt hp net src e w)) = Some out \<and>
            mset out = mset (fst (fetchFeeds rt hp net fd pre [] w))
                     + mset (fst (fetchFeeds rt hp net fd post [] w2))) \<and>
         requests (snd (rss_fetch rt hp net src e w)) = requests w @ map Get (pre @ u # post)"
proof -
  have len: "length (requests w1) = length (requests w) + length pre"
    unfolding w1 by (simp add: fetchFeeds_requests)
  with fails have f: "http_get net (length (requests w1)) u = Rejected \<or>
                http_get net (length (requests w1)) u = NotOk st tx" by simp
  from fetchFeed_failed [OF f, of rt hp fd]
  have none: "fst (fetchFeed rt hp net fd u w1) = []" and clk: "clock w2 = clock w1"
    unfolding w2 by simp_all
  have req: "requests w2 = requests w1 @ [Get u]"
    unfolding w2 by (rule fetchFeed_requests)
  have step: "fetchFeeds rt hp net fd (u # post) (fst (fetchFeeds rt hp net fd pre [] w)) w1
      = fetchFeeds rt hp net fd post (fst (fetchFeeds rt hp net fd pre [] w)) w2"
    using none unfolding w2 by (cases "fetchFeed rt hp net fd u w1") simp
  have "fst (fetchFeeds rt hp net fd (pre @ u # post) [] w)
      = fst (fetchFeeds rt hp net fd post (fst (fetchFeeds rt hp net fd pre [] w)) w2)"
    using step by (simp add: fetchFeeds_append [of rt hp net fd pre "u # post"] w1)
  also have "\<dots> = fst (fetchFeeds rt hp net fd pre [] w) @ fst (fetchFeeds rt hp net fd post [] w2)"
    by (subst fetchFeeds_acc) simp
  finally have items: "fst (fetchFeeds rt hp net fd (pre @ u # post) [] w)
      = fst (fetchFeeds rt hp net fd pre [] w) @ fst (fetchFeeds rt hp net fd post [] w2)" .
  from rss_fetch_configured [where e = e and src = src, OF env, of rt hp net w] urls fd items
  show ?thesis
    by (simp add: clk req mset_js_sort fetchFeeds_requests)
qed

text \<open>The sample source: three feeds, the second of which answers with status 500.\<close>

lemma fetchFeeds_step:
  "fst (fetchFeeds rt hp net fd (u # urls) allItems w) =
     allItems @ fst (fetchFeed rt hp net fd u w)
       @ fst (fetchFeeds rt hp net fd urls [] (snd (fetchFeed rt hp net fd u w)))"
  by (cases "fetchFeed rt hp net fd u w") (simp add: fetchFeeds_acc [of _ _ _ _ _ "_ @ _"])

lemma sample_collected:
  "fst (fetchFeeds sampleRuntime sampleHelpers sampleNetwork (Some 2)
          [str ''https://a.example/feed'', str ''https://b.example/feed'', str ''https://c.example/feed'']
          [] w) = [itemA, itemC]"
  by (simp add: fetchFeeds_step fetchFeed_samples del: fetchFeeds.simps(2))

lemma sample_rss_fetch:
  "fst (rss_fetch sampleRuntime sampleHelpers sampleNetwork RealEstateNewsSource sampleEnv w)
     = \<lparr>p_title = Some (sourceName RealEstateNewsSource), p_items = Some [itemC, itemA]\<rparr>"
  using rss_fetch_configured
    [where e = sampleEnv and src = RealEstateNewsSource and rt = sampleRuntime
       and hp = sampleHelpers and net = sampleNetwork and w = w
       and rssUrls = "str ''https://a.example/feed, https://b.example/feed, https://c.example/feed''"]
  by (simp add: RealEstateNewsSource_def sample_env sample_urls sample_collected sample_sorted str_nonempty
      del: fetchFeeds.simps(2))

theorem failed_feed_does_not_abort_witness:
  "sampleEnv (envKeyUrl RealEstateNewsSource) =
     Some (str ''https://a.example/feed, https://b.example/feed, https://c.example/feed'') \<and>
   urlListOf (str ''https://a.example/feed, https://b.example/feed, https://c.example/feed'') =
     [str ''https://a.example/feed''] @ str ''https://b.example/feed'' # [str ''https://c.example/feed''] \<and>
   http_get sampleNetwork (length (requests world0) + length [str ''https://a.example/feed''])
     (str ''https://b.example/feed'') = NotOk 500 (str ''Internal Server Error'') \<and>
   p_items (fst (rss_fetch sampleRuntime sampleHelpers sampleNetwork RealEstateNewsSource sampleEnv world0))
     = Some [itemC, itemA] \<and>
   requests (snd (rss_fetch sampleRuntime sampleHelpers sampleNetwork RealEstateNewsSource sampleEnv world0))
     = [Get (str ''https://a.example/feed''), Get (str ''https://b.example/feed''),
        Get (str ''https://c.example/feed'')]"
  using failed_feed_does_not_abort
    [where e = sampleEnv and src = RealEstateNewsSource and rt = sampleRuntime
       and hp = sampleHelpers and net = sampleNetwork and w = world0
       and rssUrls = "str ''https://a.example/feed, https://b.example/feed, https://c.example/feed''"
       and pre = "[str ''https://a.example/feed'']" and u = "str ''https://b.example/feed''"
       and post = "[str ''https://c.example/feed'']" and st = 500
       and tx = "str ''Internal Server Error''", OF _ _ _ _ refl refl refl]
  by (simp add: RealEstateNewsSource_def sample_env sample_urls sample_get str_nonempty
      sample_rss_fetch [unfolded RealEstateNewsSource_def] world0_def
      del: fetchFeeds.simps(2))

subsection \<open>Newest first\<close>






subsection \<open>The loop over the API pages\<close>

text \<open>Whatever the loop does, the items collected before stay at the front of its result.\<close>

lemma fetchPagesLoop_acc:
  "fst (fetchPagesLoop hp net src e lid fd n i after allItems w) =
     allItems @ fst (fetchPagesLoop hp net src e lid fd n i after [] w)"
proof (induction n arbitrary: i after allItems w)
  case 0
  then show ?case by simp
next
  case (Suc n)
  show ?case
  proof (cases "fetchPage hp net src e lid fd i after w")
    case (Break w')
    then show ?thesis by simp
  next
    case (Next after' items w')
    with Suc [of "i + 1" after' "allItems @ items" w'] Suc [of "i + 1" after' items w']
    show ?thesis by simp
  qed
qed




text \<open>
  A page that carries entries, all of them outside the recency window, is not such a
  page: it adds no item, and the loop goes on to the next page.
\<close>

lemma stale_page_continues:
  assumes "http_post net (length (requests w)) (e ''FOLO_DATA_API'')
             \<lparr>listId = lid, publishedAfter = opt_or after None\<rparr> = Ok (Some (Some (entry # es)))"
    and "pageItems hp src fd (entry # es) = Inr []"
  shows "fetchPagesLoop hp net src e lid fd (Suc n) i after allItems w =
           fetchPagesLoop hp net src e lid fd n (i + 1) (lastPublishedAt (entry # es)) allItems
             (issue (Post (e ''FOLO_DATA_API'') \<lparr>listId = lid, publishedAfter = opt_or after None\<rparr>)
                (say Log (str ''Fetching '' @ str (fetchingName src) @ str '', page ''
                            @ toStringRadix 10 (i + 1) @ str ''...'') w))"
  using assms unfolding fetchPagesLoop.simps fetchPage_def Let_def by (simp add: say_def)

subsection \<open>A category that is not registered\<close>




subsection \<open>Transform on a payload without items\<close>

text \<open>
  Claim C10. For every adapter (every RSS source and every API source), \<open>transform\<close>
  applied to a null or undefined raw payload, or to a payload whose \<open>items\<close> field is
  absent, returns the empty array: it does not throw and makes up no item.
\<close>

theorem transform_without_items:
  "rss_transform hp rs None ty = [] \<and>
   (p_items raw = None \<longrightarrow> rss_transform hp rs (Some raw) ty = []) \<and>
   api_transform hp ap None ty' = [] \<and>
   (a_items raw' = None \<longrightarrow> api_transform hp ap (Some raw') ty' = [])"
  by (simp add: rss_transform_def api_transform_def)

theorem transform_without_items_witness:
  "p_items \<lparr>p_title = Some (str ''t''), p_items = None\<rparr> = None \<and>
   rss_transform sampleHelpers RealEstateNewsSource
     (Some \<lparr>p_title = Some (str ''t''), p_items = None\<rparr>) (str ''news'') = [] \<and>
   a_items ((emptyFeed RealEstateMarketDataSource []) \<lparr>a_items := None\<rparr>) = None \<and>
   api_transform sampleHelpers RealEstateMarketDataSource
     (Some ((emptyFeed RealEstateMarketDataSource []) \<lparr>a_items := None\<rparr>)) (str ''market'') = []"
  using transform_without_items
    [of sampleHelpers RealEstateNewsSource "str ''news''"
        "\<lparr>p_title = Some (str ''t''), p_items = None\<rparr>" RealEstateMarketDataSource
        "str ''market''" "(emptyFeed RealEstateMarketDataSource []) \<lparr>a_items := None\<rparr>"]
  by simp

subsection \<open>An unset configuration key\<close>

text \<open>
  Claim C6. When the feed-URL key of an RSS source, or the list-id key of an API source,
  is unset, \<open>fetch\<close> returns a payload with an empty \<open>items\<close> array at once: it issues
  no request and does not read the clock.
\<close>

theorem unset_key_skips_fetch:
  "(e (envKeyUrl rs) = None \<longrightarrow>
      p_items (fst (rss_fetch rt hp net rs e w)) = Some [] \<and>
      requests (snd (rss_fetch rt hp net rs e w)) = requests w \<and>
      clock (snd (rss_fetch rt hp net rs e w)) = clock w) \<and>
   (e (listIdKey ap) = None \<longrightarrow>
      a_items (fst (api_fetch rt hp net ap e foloCookie w)) = Some [] \<and>
      requests (snd (api_fetch rt hp net ap e foloCookie w)) = requests w \<and>
      clock (snd (api_fetch rt hp net ap e foloCookie w)) = clock w)"
  by (simp add: rss_fetch_def api_fetch_def opt_or_def emptyFeed_def say_def)

theorem unset_key_skips_fetch_witness:
  "Map.empty (envKeyUrl PolicyNewsSource) = None \<and>
   p_items (fst (rss_fetch sampleRuntime sampleHelpers sampleNetwork PolicyNewsSource Map.empty world0))
     = Some [] \<and>
   requests (snd (rss_fetch sampleRuntime sampleHelpers sampleNetwork PolicyNewsSource Map.empty world0))
     = [] \<and>
   Map.empty (listIdKey RealEstateCityDataSource) = None \<and>
   a_items (fst (api_fetch sampleRuntime sampleHelpers sampleNetwork RealEstateCityDataSource
              Map.empty None world0)) = Some [] \<and>
   requests (snd (api_fetch sampleRuntime sampleHelpers sampleNetwork RealEstateCityDataSource
              Map.empty None world0)) = []"
  using unset_key_skips_fetch
    [of Map.empty PolicyNewsSource sampleRuntime sampleHelpers sampleNetwork world0
        RealEstateCityDataSource None]
  by (simp add: world0_def)

end
